theory Spec2Isabelle
  imports Complex_Main "HOL-Library.Word"
begin

section \<open>Standard VTOL transition manager (standard.cpp)\<close>

text \<open>
  A shallow embedding of \<^verbatim>\<open>Standard::update_vtol_state\<close>,
  \<^verbatim>\<open>Standard::update_transition_state\<close> and \<^verbatim>\<open>Standard::fill_actuator_outputs\<close>.
  The object's members become a record that each
  function takes and returns; the data read from the uORB topics and from the base class
  during one call become a record of inputs; the parameters become a record.
\<close>

subsection \<open>Single-precision values\<close>

text \<open>
  A C \<^verbatim>\<open>float\<close> is a finite number, one of the two infinities, or a NaN. The finite
  values are taken as reals: rounding, overflow to infinity and the sign of zero are not
  modelled. The operations follow IEEE 754 on the four kinds of value: a comparison with a
  NaN is false, a non-zero finite number divided by zero is an infinity (of the sign of
  the dividend, zero counting as positive zero), and zero divided by zero is a NaN.
  Since a sum, product or quotient of finite values never overflows here, nothing below
  concludes that the result of an operation is finite.
\<close>

datatype float = Finite real | PInf | NInf | NaN

fun PX4_ISFINITE :: "float \<Rightarrow> bool" where
  "PX4_ISFINITE (Finite x) = True"
| "PX4_ISFINITE PInf = False"
| "PX4_ISFINITE NInf = False"
| "PX4_ISFINITE NaN = False"

fun fneg :: "float \<Rightarrow> float" where
  "fneg (Finite x) = Finite (- x)"
| "fneg PInf = NInf"
| "fneg NInf = PInf"
| "fneg NaN = NaN"

fun fadd :: "float \<Rightarrow> float \<Rightarrow> float" where
  "fadd (Finite x) (Finite y) = Finite (x + y)"
| "fadd NaN b = NaN"
| "fadd a NaN = NaN"
| "fadd PInf NInf = NaN"
| "fadd NInf PInf = NaN"
| "fadd PInf b = PInf"
| "fadd NInf b = NInf"
| "fadd a PInf = PInf"
| "fadd a NInf = NInf"

definition fsub :: "float \<Rightarrow> float \<Rightarrow> float" where
  "fsub a b = fadd a (fneg b)"

text \<open>An infinity of the sign of \<open>x\<close> times the sign of the infinity; NaN for \<open>x = 0\<close>.\<close>

definition signed_inf :: "real \<Rightarrow> bool \<Rightarrow> float" where
  "signed_inf x pos = (if x = 0 then NaN else if (0 < x) = pos then PInf else NInf)"

fun fmul :: "float \<Rightarrow> float \<Rightarrow> float" where
  "fmul (Finite x) (Finite y) = Finite (x * y)"
| "fmul NaN b = NaN"
| "fmul a NaN = NaN"
| "fmul (Finite x) PInf = signed_inf x True"
| "fmul (Finite x) NInf = signed_inf x False"
| "fmul PInf (Finite y) = signed_inf y True"
| "fmul NInf (Finite y) = signed_inf y False"
| "fmul PInf PInf = PInf"
| "fmul PInf NInf = NInf"
| "fmul NInf PInf = NInf"
| "fmul NInf NInf = PInf"

fun fdiv :: "float \<Rightarrow> float \<Rightarrow> float" where
  "fdiv (Finite x) (Finite y) = (if y = 0 then signed_inf x True else Finite (x / y))"
| "fdiv NaN b = NaN"
| "fdiv a NaN = NaN"
| "fdiv (Finite x) PInf = Finite 0"
| "fdiv (Finite x) NInf = Finite 0"
| "fdiv PInf (Finite y) = (if 0 \<le> y then PInf else NInf)"
| "fdiv NInf (Finite y) = (if 0 \<le> y then NInf else PInf)"
| "fdiv PInf b = NaN"
| "fdiv NInf b = NaN"

fun flt :: "float \<Rightarrow> float \<Rightarrow> bool" where
  "flt (Finite x) (Finite y) = (x < y)"
| "flt NaN b = False"
| "flt a NaN = False"
| "flt a NInf = False"
| "flt PInf b = False"
| "flt NInf b = True"
| "flt a PInf = True"

fun fle :: "float \<Rightarrow> float \<Rightarrow> bool" where
  "fle (Finite x) (Finite y) = (x \<le> y)"
| "fle NaN b = False"
| "fle a NaN = False"
| "fle NInf b = True"
| "fle a PInf = True"
| "fle PInf b = False"
| "fle a NInf = False"

definition fgt :: "float \<Rightarrow> float \<Rightarrow> bool" where
  "fgt a b = flt b a"

definition fge :: "float \<Rightarrow> float \<Rightarrow> bool" where
  "fge a b = fle b a"

fun fabsf :: "float \<Rightarrow> float" where
  "fabsf (Finite x) = Finite \<bar>x\<bar>"
| "fabsf PInf = PInf"
| "fabsf NInf = PInf"
| "fabsf NaN = NaN"

text \<open>
  Modelled from the spec: \<^verbatim>\<open>math::constrain\<close> of the PX4 math library is not part of the
  source file; it is the spec's \<open>clamp(x, lo, hi)\<close>, as two comparisons, so that a NaN
  passes through.
\<close>

definition constrain :: "float \<Rightarrow> float \<Rightarrow> float \<Rightarrow> float" where
  "constrain val min_val max_val =
     (if flt val min_val then min_val else if fgt val max_val then max_val else val)"

text \<open>\<^verbatim>\<open>FLT_EPSILON\<close> of \<^verbatim>\<open>float.h\<close>.\<close>

definition FLT_EPSILON :: float where
  "FLT_EPSILON = Finite (1 / 2 ^ 23)"

subsection \<open>Time\<close>

text \<open>
  \<^verbatim>\<open>hrt_abstime\<close> is an unsigned 64-bit count of microseconds; the difference of two
  of them wraps. \<^verbatim>\<open>(float)(now - start) * 1e-6f\<close> is the elapsed time in seconds.
\<close>

type_synonym hrt_abstime = "64 word"

definition time_since :: "hrt_abstime \<Rightarrow> hrt_abstime \<Rightarrow> float" where
  "time_since now start = Finite (real (unat (now - start)) * (1 / 1000000))"

text \<open>The literal \<^verbatim>\<open>1_s\<close>: one second in microseconds.\<close>

definition one_s :: hrt_abstime where
  "one_s = 1000000"

subsection \<open>Data model\<close>

datatype vtol_mode = MC_MODE | TRANSITION_TO_FW | TRANSITION_TO_MC | FW_MODE

text \<open>The coarse mode \<^verbatim>\<open>_vtol_mode\<close> of the base class.\<close>

datatype mode = mode_TRANSITION_TO_FW | mode_TRANSITION_TO_MC | ROTARY_WING | FIXED_WING

datatype QuadchuteReason = TransitionTimeout

text \<open>The channels of \<^verbatim>\<open>actuator_controls_s::control\<close>, by their symbolic index.\<close>

datatype channel =
  INDEX_ROLL | INDEX_PITCH | INDEX_YAW | INDEX_THROTTLE
  | INDEX_FLAPS | INDEX_SPOILERS | INDEX_AIRBRAKES | INDEX_LANDING_GEAR

record actuator_controls_s =
  ac_timestamp :: hrt_abstime
  ac_timestamp_sample :: hrt_abstime
  control :: "channel \<Rightarrow> float"

record vehicle_setpoint_s =
  sp_timestamp :: hrt_abstime
  sp_timestamp_sample :: hrt_abstime
  xyz :: "float \<times> float \<times> float"

text \<open>
  The fields of \<^verbatim>\<open>vehicle_attitude_setpoint_s\<close> that the code names; \<^verbatim>\<open>memcpy\<close> of
  the whole message is the assignment of the whole record.
\<close>

record vehicle_attitude_setpoint_s =
  timestamp :: hrt_abstime
  roll_body :: float
  pitch_body :: float
  yaw_body :: float
  q_d :: "float \<times> float \<times> float \<times> float"
  thrust_body :: "float \<times> float \<times> float"

text \<open>The parameters read through \<^verbatim>\<open>_param_...get()\<close>.\<close>

record params =
  vt_f_trans_thr :: float
  vt_psher_rmp_dt :: float
  vt_arsp_trans :: float
  vt_arsp_blend :: float
  vt_trans_timeout :: float
  vt_b_trans_dur :: float
  vt_b_trans_ramp :: float
  vt_b_trans_thr :: float
  vt_b_rev_del :: float
  vt_b_rev_out :: float
  vt_elev_mc_lock :: "32 word"
  fw_arsp_mode :: "32 word"
  fw_psp_off :: float
  mpc_xy_cruise :: float

text \<open>
  What one call reads from outside the object: the clock (\<open>hrt_absolute_time k\<close> is the
  value returned by the \<open>k\<close>-th call of \<^verbatim>\<open>hrt_absolute_time()\<close> inside the function,
  counted from 0), the subscribed topics, and the results of the base-class and
  controller methods that are not part of the source file.
\<close>

record inputs =
  hrt_absolute_time :: "nat \<Rightarrow> hrt_abstime"
  is_fixed_wing_requested :: bool
  can_transition_on_ground :: bool
  getMinimumFrontTransitionTime :: float
  update_and_get_backtransition_pitch_sp :: float
  v_xy_valid :: bool
  vx :: float
  vy :: float
  vz :: float
  q :: "float \<times> float \<times> float \<times> float"
  calibrated_airspeed_m_s :: float
  flag_control_climb_rate_enabled :: bool
  mc_virtual_att_sp :: vehicle_attitude_setpoint_s
  fw_virtual_att_sp :: vehicle_attitude_setpoint_s
  actuators_mc_in :: actuator_controls_s
  actuators_fw_in :: actuator_controls_s
  dt :: float

text \<open>
  Declarations the source file uses and does not contain, taken as parameters: the matrix
  library (\<open>R_to_body_x q v\<close> is component 0 of \<^verbatim>\<open>Dcmf(Quatf(q).inversed()) * v\<close>,
  \<open>Quatf_Eulerf\<close> is \<^verbatim>\<open>Quatf(Eulerf(roll, pitch, yaw))\<close>), \<^verbatim>\<open>math::radians\<close>,
  \<^verbatim>\<open>SlewRate::update\<close> (from the state, the new value and \<open>dt\<close> to the new state), the
  constants of \<^verbatim>\<open>landing_gear_s\<close>, and \<^verbatim>\<open>VtolType::update_transition_state\<close>.

  Modelled from the spec: \<^verbatim>\<open>VtolType::update_transition_state\<close> is not part of the
  source file; the spec has it handle the slew-rate-limited surfaces shared across VTOL
  types, so it is a function on the states of the flaps and spoiler slew rates and on the
  state of the base class that the source file never names (the type \<open>'b\<close>).
\<close>

record 'b lib =
  R_to_body_x :: "float \<times> float \<times> float \<times> float \<Rightarrow> float \<times> float \<times> float \<Rightarrow> float"
  Quatf_Eulerf :: "float \<Rightarrow> float \<Rightarrow> float \<Rightarrow> float \<times> float \<times> float \<times> float"
  radians :: "float \<Rightarrow> float"
  SlewRate_update :: "float \<Rightarrow> float \<Rightarrow> float \<Rightarrow> float"
  GEAR_UP :: float
  GEAR_DOWN :: float
  VtolType_update_transition_state :: "float \<times> float \<times> 'b \<Rightarrow> float \<times> float \<times> 'b"

text \<open>
  The members of the object that the source file reads or writes, with the failsafe flag
  of \<^verbatim>\<open>_vtol_vehicle_status\<close> (which \<^verbatim>\<open>update_vtol_state\<close> clears), the attitude
  setpoint \<^verbatim>\<open>_v_att_sp\<close>, the output messages, and the quadchute requests sent to the
  controller (latest first).
\<close>

record 'b Standard =
  flight_mode :: vtol_mode
  transition_start :: hrt_abstime
  mc_roll_weight :: float
  mc_pitch_weight :: float
  mc_yaw_weight :: float
  mc_throttle_weight :: float
  pusher_throttle :: float
  reverse_output :: float
  vtol_mode :: mode
  trans_finished_ts :: hrt_abstime
  airspeed_trans_blend_margin :: float
  vtol_transition_failsafe :: bool
  v_att_sp :: vehicle_attitude_setpoint_s
  flaps_setpoint_with_slewrate :: float
  spoiler_setpoint_with_slewrate :: float
  quadchute :: "QuadchuteReason list"
  actuators_out_0 :: actuator_controls_s
  actuators_out_1 :: actuator_controls_s
  torque_setpoint_0 :: vehicle_setpoint_s
  torque_setpoint_1 :: vehicle_setpoint_s
  thrust_setpoint_0 :: vehicle_setpoint_s
  thrust_setpoint_1 :: vehicle_setpoint_s
  vtol_type :: 'b

subsection \<open>The mode scheduler\<close>

text \<open>The four assignments at the end of both update functions.\<close>

definition set_mc_weights :: "float \<Rightarrow> 'b Standard \<Rightarrow> 'b Standard" where
  "set_mc_weights mc_weight s =
     s\<lparr>mc_roll_weight := mc_weight, mc_pitch_weight := mc_weight,
       mc_yaw_weight := mc_weight, mc_throttle_weight := mc_weight\<rparr>"

text \<open>The \<^verbatim>\<open>switch\<close> that maps the control phase to the simple control mode.\<close>

fun simple_mode :: "vtol_mode \<Rightarrow> mode" where
  "simple_mode MC_MODE = ROTARY_WING"
| "simple_mode FW_MODE = FIXED_WING"
| "simple_mode TRANSITION_TO_FW = mode_TRANSITION_TO_FW"
| "simple_mode TRANSITION_TO_MC = mode_TRANSITION_TO_MC"

text \<open>The speed exit condition of the back transition: ground speed if valid, else airspeed.\<close>

definition exit_backtransition_speed_condition :: "'b lib \<Rightarrow> params \<Rightarrow> inputs \<Rightarrow> bool" where
  "exit_backtransition_speed_condition l p i =
     (if v_xy_valid i then flt (R_to_body_x l (q i) (vx i, vy i, vz i)) (mpc_xy_cruise p)
      else if PX4_ISFINITE (calibrated_airspeed_m_s i)
        then flt (calibrated_airspeed_m_s i) (mpc_xy_cruise p)
      else False)"

definition exit_backtransition_time_condition :: "params \<Rightarrow> float \<Rightarrow> bool" where
  "exit_backtransition_time_condition p time_since_trans_start =
     fgt time_since_trans_start (vt_b_trans_dur p)"

text \<open>The local \<^verbatim>\<open>transition_to_fw\<close> of the front transition.\<close>

definition transition_to_fw :: "params \<Rightarrow> inputs \<Rightarrow> float \<Rightarrow> bool" where
  "transition_to_fw p i time_since_trans_start =
     (let airspeed_triggers_transition =
            (PX4_ISFINITE (calibrated_airspeed_m_s i) \<and> fw_arsp_mode p = 0);
          minimum_trans_time_elapsed =
            fgt time_since_trans_start (getMinimumFrontTransitionTime i);
          by_time =
            (if minimum_trans_time_elapsed
             then (if airspeed_triggers_transition
                   then fge (calibrated_airspeed_m_s i) (vt_arsp_trans p)
                   else True)
             else False)
      in by_time \<or> can_transition_on_ground i)"

text \<open>
  \<^verbatim>\<open>Standard::update_vtol_state\<close>. The branches return the state and the local
  \<^verbatim>\<open>mc_weight\<close>; the tail writes the four weights and the simple mode.
\<close>

definition update_vtol_state :: "'b lib \<Rightarrow> params \<Rightarrow> inputs \<Rightarrow> 'b Standard \<Rightarrow> 'b Standard" where
  "update_vtol_state l p i s =
     (let mc_weight = mc_roll_weight s;
          time_since_trans_start = time_since (hrt_absolute_time i 0) (transition_start s);
          (s1, mc_weight1) =
            (if vtol_transition_failsafe s then
               (s\<lparr>flight_mode := MC_MODE, pusher_throttle := Finite 0,
                  reverse_output := Finite 0,
                  vtol_transition_failsafe :=
                    (if \<not> is_fixed_wing_requested i then False
                     else vtol_transition_failsafe s)\<rparr>,
                mc_weight)
             else if \<not> is_fixed_wing_requested i then
               (case flight_mode s of
                  MC_MODE \<Rightarrow>
                    (s\<lparr>flight_mode := MC_MODE, reverse_output := Finite 0\<rparr>, Finite 1)
                | FW_MODE \<Rightarrow>
                    (s\<lparr>flight_mode := TRANSITION_TO_MC,
                       transition_start := hrt_absolute_time i 1,
                       reverse_output := vt_b_rev_out p\<rparr>, mc_weight)
                | TRANSITION_TO_FW \<Rightarrow>
                    (s\<lparr>flight_mode := MC_MODE, pusher_throttle := Finite 0,
                       reverse_output := Finite 0\<rparr>, Finite 1)
                | TRANSITION_TO_MC \<Rightarrow>
                    (if can_transition_on_ground i
                        \<or> exit_backtransition_speed_condition l p i
                        \<or> exit_backtransition_time_condition p time_since_trans_start
                     then (s\<lparr>flight_mode := MC_MODE\<rparr>, mc_weight)
                     else (s, mc_weight)))
             else
               (if flight_mode s = MC_MODE \<or> flight_mode s = TRANSITION_TO_MC then
                  (s\<lparr>flight_mode := TRANSITION_TO_FW,
                     transition_start := hrt_absolute_time i 1\<rparr>, mc_weight)
                else if flight_mode s = FW_MODE then
                  (s\<lparr>flight_mode := FW_MODE\<rparr>, Finite 0)
                else
                  (if transition_to_fw p i time_since_trans_start
                   then (s\<lparr>flight_mode := FW_MODE,
                            trans_finished_ts := hrt_absolute_time i 1\<rparr>, mc_weight)
                   else (s, mc_weight))));
          s2 = set_mc_weights mc_weight1 s1
      in s2\<lparr>vtol_mode := simple_mode (flight_mode s2)\<rparr>)"

subsection \<open>The transition controller\<close>

text \<open>
  The freshness test on the virtual attitude setpoints; \<^verbatim>\<open>now - 1_s\<close> is unsigned and
  wraps when \<open>now\<close> is less than a second.
\<close>

definition setpoints_stale :: "inputs \<Rightarrow> hrt_abstime \<Rightarrow> bool" where
  "setpoints_stale i now =
     (if flag_control_climb_rate_enabled i
      then timestamp (mc_virtual_att_sp i) < now - one_s
         \<or> timestamp (fw_virtual_att_sp i) < now - one_s
      else timestamp (fw_virtual_att_sp i) < now - one_s)"

text \<open>The attitude setpoint copied from the fresh virtual setpoints.\<close>

definition copy_virtual_att_sp :: "inputs \<Rightarrow> vehicle_attitude_setpoint_s" where
  "copy_virtual_att_sp i =
     (if flag_control_climb_rate_enabled i
      then (mc_virtual_att_sp i)\<lparr>roll_body := roll_body (fw_virtual_att_sp i)\<rparr>
      else (case thrust_body (fw_virtual_att_sp i) of
              (t0, t1, t2) \<Rightarrow> (fw_virtual_att_sp i)\<lparr>thrust_body := (t0, t1, fneg t0)\<rparr>))"

text \<open>The pusher throttle of the front transition, from its previous value.\<close>

definition front_transition_pusher_throttle :: "params \<Rightarrow> float \<Rightarrow> float \<Rightarrow> float" where
  "front_transition_pusher_throttle p time_since_trans_start pusher =
     (if fle (vt_psher_rmp_dt p) (Finite 0) then vt_f_trans_thr p
      else if fle pusher (vt_f_trans_thr p)
        then fdiv (fmul (vt_f_trans_thr p) time_since_trans_start) (vt_psher_rmp_dt p)
      else pusher)"

text \<open>The local \<^verbatim>\<open>mc_weight\<close> of the front transition, before the final \<^verbatim>\<open>constrain\<close>.\<close>

definition front_transition_mc_weight :: "params \<Rightarrow> inputs \<Rightarrow> float \<Rightarrow> float" where
  "front_transition_mc_weight p i time_since_trans_start =
     (let margin = fsub (vt_arsp_trans p) (vt_arsp_blend p) in
      if fgt margin (Finite 0)
         \<and> PX4_ISFINITE (calibrated_airspeed_m_s i)
         \<and> fgt (calibrated_airspeed_m_s i) (Finite 0)
         \<and> fge (calibrated_airspeed_m_s i) (vt_arsp_blend p)
         \<and> fgt time_since_trans_start (getMinimumFrontTransitionTime i)
      then fsub (Finite 1)
             (fdiv (fabsf (fsub (calibrated_airspeed_m_s i) (vt_arsp_blend p))) margin)
      else if fw_arsp_mode p \<noteq> 0 \<or> \<not> PX4_ISFINITE (calibrated_airspeed_m_s i)
      then constrain
             (fmul (Finite 2)
                (fsub (Finite 1)
                   (fdiv time_since_trans_start (getMinimumFrontTransitionTime i))))
             (Finite 0) (Finite 1)
      else Finite 1)"

text \<open>The quotient \<^verbatim>\<open>thrscale\<close> of the back transition, before its \<^verbatim>\<open>constrain\<close>.\<close>

definition thrscale :: "params \<Rightarrow> float \<Rightarrow> float" where
  "thrscale p time_since_trans_start =
     fdiv (fsub time_since_trans_start (vt_b_rev_del p)) (vt_psher_rmp_dt p)"

text \<open>The pusher throttle of the back transition.\<close>

definition back_transition_pusher_throttle :: "params \<Rightarrow> float \<Rightarrow> float" where
  "back_transition_pusher_throttle p time_since_trans_start =
     (if fge time_since_trans_start (vt_b_rev_del p)
      then fmul (constrain (thrscale p time_since_trans_start) (Finite 0) (Finite 1))
             (vt_b_trans_thr p)
      else Finite 0)"

text \<open>The local \<^verbatim>\<open>mc_weight\<close> of the back transition, before the final \<^verbatim>\<open>constrain\<close>.\<close>

definition back_transition_mc_weight :: "params \<Rightarrow> float \<Rightarrow> float" where
  "back_transition_mc_weight p time_since_trans_start =
     (if fgt (vt_b_trans_ramp p) FLT_EPSILON
      then fdiv time_since_trans_start (vt_b_trans_ramp p)
      else Finite 1)"

definition set_q_d :: "'b lib \<Rightarrow> vehicle_attitude_setpoint_s \<Rightarrow> vehicle_attitude_setpoint_s" where
  "set_q_d l sp = sp\<lparr>q_d := Quatf_Eulerf l (roll_body sp) (pitch_body sp) (yaw_body sp)\<rparr>"

text \<open>
  The local \<^verbatim>\<open>mc_weight\<close> before the final \<^verbatim>\<open>constrain\<close>: 1 at its declaration,
  then as the branch of the flight mode sets it.
\<close>

definition transition_mc_weight :: "params \<Rightarrow> inputs \<Rightarrow> vtol_mode \<Rightarrow> float \<Rightarrow> float" where
  "transition_mc_weight p i m time_since_trans_start =
     (case m of
        TRANSITION_TO_FW \<Rightarrow> front_transition_mc_weight p i time_since_trans_start
      | TRANSITION_TO_MC \<Rightarrow> back_transition_mc_weight p time_since_trans_start
      | _ \<Rightarrow> Finite 1)"

text \<open>
  \<^verbatim>\<open>Standard::update_transition_state\<close>. The base-class call comes first; on stale
  virtual setpoints the function returns at once.
\<close>

definition update_transition_state :: "'b lib \<Rightarrow> params \<Rightarrow> inputs \<Rightarrow> 'b Standard \<Rightarrow> 'b Standard" where
  "update_transition_state l p i s =
     (let now = hrt_absolute_time i 0;
          time_since_trans_start = time_since now (transition_start s);
          s0 = (case VtolType_update_transition_state l
                       (flaps_setpoint_with_slewrate s, spoiler_setpoint_with_slewrate s,
                        vtol_type s) of
                  (fl, sp, b) \<Rightarrow>
                    s\<lparr>flaps_setpoint_with_slewrate := fl,
                      spoiler_setpoint_with_slewrate := sp, vtol_type := b\<rparr>)
      in if setpoints_stale i now then s0
         else
           (let s1 = s0\<lparr>v_att_sp := copy_virtual_att_sp i\<rparr>;
                mc_weight = transition_mc_weight p i (flight_mode s1) time_since_trans_start;
                s2 =
                  (if flight_mode s1 = TRANSITION_TO_FW then
                     s1\<lparr>pusher_throttle :=
                          front_transition_pusher_throttle p time_since_trans_start
                            (pusher_throttle s1),
                        airspeed_trans_blend_margin :=
                          fsub (vt_arsp_trans p) (vt_arsp_blend p),
                        v_att_sp :=
                          set_q_d l ((v_att_sp s1)\<lparr>pitch_body :=
                            fmul (radians l (fw_psp_off p)) (fsub (Finite 1) mc_weight)\<rparr>),
                        quadchute :=
                          (if fgt (vt_trans_timeout p) FLT_EPSILON
                              \<and> fgt time_since_trans_start (vt_trans_timeout p)
                           then TransitionTimeout # quadchute s1 else quadchute s1),
                        flaps_setpoint_with_slewrate :=
                          SlewRate_update l (flaps_setpoint_with_slewrate s1) (Finite 0) (dt i),
                        spoiler_setpoint_with_slewrate :=
                          SlewRate_update l (spoiler_setpoint_with_slewrate s1) (Finite 0) (dt i)\<rparr>
                   else if flight_mode s1 = TRANSITION_TO_MC then
                     s1\<lparr>v_att_sp :=
                          set_q_d l
                            (if flag_control_climb_rate_enabled i
                             then (v_att_sp s1)\<lparr>pitch_body :=
                                    update_and_get_backtransition_pitch_sp i\<rparr>
                             else v_att_sp s1),
                        pusher_throttle :=
                          back_transition_pusher_throttle p time_since_trans_start\<rparr>
                   else s1)
            in set_mc_weights (constrain mc_weight (Finite 0) (Finite 1)) s2))"

subsection \<open>The actuator mixer\<close>

text \<open>The control vectors \<^verbatim>\<open>mc_out\<close> and \<^verbatim>\<open>fw_out\<close>; a channel that is not assigned keeps its value.\<close>

definition mc_out_control :: "'b lib \<Rightarrow> inputs \<Rightarrow> 'b Standard \<Rightarrow> channel \<Rightarrow> float" where
  "mc_out_control l i s =
     (let mc_in = control (actuators_mc_in i); mc_out = control (actuators_out_0 s) in
      case flight_mode s of
        MC_MODE \<Rightarrow>
          mc_out(INDEX_ROLL := mc_in INDEX_ROLL, INDEX_PITCH := mc_in INDEX_PITCH,
                 INDEX_YAW := mc_in INDEX_YAW, INDEX_THROTTLE := mc_in INDEX_THROTTLE,
                 INDEX_LANDING_GEAR := GEAR_DOWN l)
      | FW_MODE \<Rightarrow>
          mc_out(INDEX_ROLL := Finite 0, INDEX_PITCH := Finite 0, INDEX_YAW := Finite 0,
                 INDEX_THROTTLE := Finite 0, INDEX_LANDING_GEAR := GEAR_UP l)
      | _ \<Rightarrow>
          mc_out(INDEX_ROLL := fmul (mc_in INDEX_ROLL) (mc_roll_weight s),
                 INDEX_PITCH := fmul (mc_in INDEX_PITCH) (mc_pitch_weight s),
                 INDEX_YAW := fmul (mc_in INDEX_YAW) (mc_yaw_weight s),
                 INDEX_THROTTLE := fmul (mc_in INDEX_THROTTLE) (mc_throttle_weight s),
                 INDEX_LANDING_GEAR := GEAR_UP l))"

definition fw_out_control :: "params \<Rightarrow> inputs \<Rightarrow> 'b Standard \<Rightarrow> channel \<Rightarrow> float" where
  "fw_out_control p i s =
     (let fw_in = control (actuators_fw_in i); fw_out = control (actuators_out_1 s) in
      case flight_mode s of
        MC_MODE \<Rightarrow>
          fw_out(INDEX_ROLL := (if vt_elev_mc_lock p \<noteq> 0 then Finite 0 else fw_in INDEX_ROLL),
                 INDEX_PITCH := (if vt_elev_mc_lock p \<noteq> 0 then Finite 0 else fw_in INDEX_PITCH),
                 INDEX_YAW := Finite 0,
                 INDEX_THROTTLE := pusher_throttle s,
                 INDEX_FLAPS := flaps_setpoint_with_slewrate s,
                 INDEX_SPOILERS := spoiler_setpoint_with_slewrate s,
                 INDEX_AIRBRAKES := Finite 0)
      | FW_MODE \<Rightarrow>
          fw_out(INDEX_ROLL := fw_in INDEX_ROLL, INDEX_PITCH := fw_in INDEX_PITCH,
                 INDEX_YAW := fw_in INDEX_YAW, INDEX_THROTTLE := fw_in INDEX_THROTTLE,
                 INDEX_FLAPS := flaps_setpoint_with_slewrate s,
                 INDEX_SPOILERS := spoiler_setpoint_with_slewrate s,
                 INDEX_AIRBRAKES := Finite 0)
      | _ \<Rightarrow>
          fw_out(INDEX_ROLL := fw_in INDEX_ROLL, INDEX_PITCH := fw_in INDEX_PITCH,
                 INDEX_YAW := fw_in INDEX_YAW, INDEX_THROTTLE := pusher_throttle s,
                 INDEX_FLAPS := flaps_setpoint_with_slewrate s,
                 INDEX_SPOILERS := spoiler_setpoint_with_slewrate s,
                 INDEX_AIRBRAKES := reverse_output s))"

text \<open>\<^verbatim>\<open>Standard::fill_actuator_outputs\<close>, with its five readings of the clock.\<close>

definition fill_actuator_outputs :: "'b lib \<Rightarrow> params \<Rightarrow> inputs \<Rightarrow> 'b Standard \<Rightarrow> 'b Standard" where
  "fill_actuator_outputs l p i s =
     (let mc_out = mc_out_control l i s;
          fw_out = fw_out_control p i s;
          mc_sample = ac_timestamp_sample (actuators_mc_in i);
          fw_sample = ac_timestamp_sample (actuators_fw_in i)
      in s\<lparr>torque_setpoint_0 :=
             (torque_setpoint_0 s)\<lparr>sp_timestamp := hrt_absolute_time i 0,
               sp_timestamp_sample := mc_sample,
               xyz := (mc_out INDEX_ROLL, mc_out INDEX_PITCH, mc_out INDEX_YAW)\<rparr>,
           torque_setpoint_1 :=
             (torque_setpoint_1 s)\<lparr>sp_timestamp := hrt_absolute_time i 1,
               sp_timestamp_sample := fw_sample,
               xyz := (fw_out INDEX_ROLL, fw_out INDEX_PITCH, fw_out INDEX_YAW)\<rparr>,
           thrust_setpoint_0 :=
             (thrust_setpoint_0 s)\<lparr>sp_timestamp := hrt_absolute_time i 2,
               sp_timestamp_sample := mc_sample,
               xyz := (fw_out INDEX_THROTTLE, Finite 0, fneg (mc_out INDEX_THROTTLE))\<rparr>,
           thrust_setpoint_1 :=
             (thrust_setpoint_1 s)\<lparr>sp_timestamp := hrt_absolute_time i 3,
               sp_timestamp_sample := fw_sample,
               xyz := (Finite 0, Finite 0, Finite 0)\<rparr>,
           actuators_out_0 :=
             (actuators_out_0 s)\<lparr>ac_timestamp := hrt_absolute_time i 4,
               ac_timestamp_sample := mc_sample, control := mc_out\<rparr>,
           actuators_out_1 :=
             (actuators_out_1 s)\<lparr>ac_timestamp := hrt_absolute_time i 4,
               ac_timestamp_sample := fw_sample, control := fw_out\<rparr>\<rparr>)"

subsection \<open>The mixer table of the specification\<close>

text \<open>
  The channels that the table of the specification gives: roll, pitch, yaw, throttle and
  landing gear of the MC group, and roll, pitch, yaw, throttle, airbrakes, flaps and
  spoilers of the FW group.
\<close>

record mixer_row =
  mc_roll :: float
  mc_pitch :: float
  mc_yaw :: float
  mc_throttle :: float
  mc_landing_gear :: float
  fw_roll :: float
  fw_pitch :: float
  fw_yaw :: float
  fw_throttle :: float
  fw_airbrakes :: float
  fw_flaps :: float
  fw_spoilers :: float

text \<open>
  The table, written from the specification: a function of the flight mode, the two input
  vectors, the four weights, the pusher throttle, the reverse output, the two slew-rate
  states and the elevon lock (and of the two landing-gear constants).
\<close>

definition mixer_table ::
  "vtol_mode \<Rightarrow> (channel \<Rightarrow> float) \<Rightarrow> (channel \<Rightarrow> float) \<Rightarrow> float \<Rightarrow> float \<Rightarrow> float \<Rightarrow> float
     \<Rightarrow> float \<Rightarrow> float \<Rightarrow> float \<Rightarrow> float \<Rightarrow> bool \<Rightarrow> float \<Rightarrow> float \<Rightarrow> mixer_row" where
  "mixer_table m mc_in fw_in w_roll w_pitch w_yaw w_throttle pusher reverse flaps spoilers
       elev_lock gear_up gear_down =
     (if m = MC_MODE then
        \<lparr>mc_roll = mc_in INDEX_ROLL, mc_pitch = mc_in INDEX_PITCH, mc_yaw = mc_in INDEX_YAW,
         mc_throttle = mc_in INDEX_THROTTLE, mc_landing_gear = gear_down,
         fw_roll = (if elev_lock then Finite 0 else fw_in INDEX_ROLL),
         fw_pitch = (if elev_lock then Finite 0 else fw_in INDEX_PITCH),
         fw_yaw = Finite 0, fw_throttle = pusher, fw_airbrakes = Finite 0,
         fw_flaps = flaps, fw_spoilers = spoilers\<rparr>
      else if m = FW_MODE then
        \<lparr>mc_roll = Finite 0, mc_pitch = Finite 0, mc_yaw = Finite 0,
         mc_throttle = Finite 0, mc_landing_gear = gear_up,
         fw_roll = fw_in INDEX_ROLL, fw_pitch = fw_in INDEX_PITCH, fw_yaw = fw_in INDEX_YAW,
         fw_throttle = fw_in INDEX_THROTTLE, fw_airbrakes = Finite 0,
         fw_flaps = flaps, fw_spoilers = spoilers\<rparr>
      else
        \<lparr>mc_roll = fmul (mc_in INDEX_ROLL) w_roll, mc_pitch = fmul (mc_in INDEX_PITCH) w_pitch,
         mc_yaw = fmul (mc_in INDEX_YAW) w_yaw,
         mc_throttle = fmul (mc_in INDEX_THROTTLE) w_throttle, mc_landing_gear = gear_up,
         fw_roll = fw_in INDEX_ROLL, fw_pitch = fw_in INDEX_PITCH, fw_yaw = fw_in INDEX_YAW,
         fw_throttle = pusher, fw_airbrakes = reverse,
         fw_flaps = flaps, fw_spoilers = spoilers\<rparr>)"

text \<open>The same channels, read from the two output messages.\<close>

definition emitted_row :: "'b Standard \<Rightarrow> mixer_row" where
  "emitted_row s =
     (let mc_out = control (actuators_out_0 s); fw_out = control (actuators_out_1 s) in
      \<lparr>mc_roll = mc_out INDEX_ROLL, mc_pitch = mc_out INDEX_PITCH, mc_yaw = mc_out INDEX_YAW,
       mc_throttle = mc_out INDEX_THROTTLE, mc_landing_gear = mc_out INDEX_LANDING_GEAR,
       fw_roll = fw_out INDEX_ROLL, fw_pitch = fw_out INDEX_PITCH, fw_yaw = fw_out INDEX_YAW,
       fw_throttle = fw_out INDEX_THROTTLE, fw_airbrakes = fw_out INDEX_AIRBRAKES,
       fw_flaps = fw_out INDEX_FLAPS, fw_spoilers = fw_out INDEX_SPOILERS\<rparr>)"

subsection \<open>Concrete inputs\<close>

text \<open>
  The configuration of the nominal scenarios of the specification: blending from 10 m/s,
  front transition complete at 20 m/s, pusher ramp of 2 s to 0.75, back transition of at
  most 8 s with reverse thrust 0.4 after 0.5 s, hover cruise speed 5 m/s.
\<close>

definition scenario_params :: params where
  "scenario_params =
     \<lparr>vt_f_trans_thr = Finite (3 / 4), vt_psher_rmp_dt = Finite 2,
      vt_arsp_trans = Finite 20, vt_arsp_blend = Finite 10,
      vt_trans_timeout = Finite 10, vt_b_trans_dur = Finite 8,
      vt_b_trans_ramp = Finite 3, vt_b_trans_thr = Finite (2 / 5),
      vt_b_rev_del = Finite (1 / 2), vt_b_rev_out = Finite 0,
      vt_elev_mc_lock = 1, fw_arsp_mode = 0,
      fw_psp_off = Finite 0, mpc_xy_cruise = Finite 5\<rparr>"

text \<open>
  A library for the concrete inputs: level attitude (the body-X velocity is \<open>vx\<close>), the
  identity quaternion, slew rates that reach their target at once, and a base class that
  leaves its state as it is.
\<close>

definition scenario_lib :: "unit lib" where
  "scenario_lib =
     \<lparr>R_to_body_x = (\<lambda>q v. fst v),
      Quatf_Eulerf = (\<lambda>r p y. (Finite 1, Finite 0, Finite 0, Finite 0)),
      radians = (\<lambda>d. fmul d (Finite (355 / (113 * 180)))),
      SlewRate_update = (\<lambda>st v d. v),
      GEAR_UP = Finite 1, GEAR_DOWN = Finite (- 1),
      VtolType_update_transition_state = (\<lambda>b. b)\<rparr>"

definition level_att_sp :: "hrt_abstime \<Rightarrow> vehicle_attitude_setpoint_s" where
  "level_att_sp ts =
     \<lparr>timestamp = ts, roll_body = Finite 0, pitch_body = Finite 0, yaw_body = Finite 0,
      q_d = (Finite 1, Finite 0, Finite 0, Finite 0),
      thrust_body = (Finite 0, Finite 0, Finite 0)\<rparr>"

definition const_controls :: "float \<Rightarrow> actuator_controls_s" where
  "const_controls v = \<lparr>ac_timestamp = 0, ac_timestamp_sample = 0, control = (\<lambda>c. v)\<rparr>"

definition zero_setpoint :: vehicle_setpoint_s where
  "zero_setpoint =
     \<lparr>sp_timestamp = 0, sp_timestamp_sample = 0, xyz = (Finite 0, Finite 0, Finite 0)\<rparr>"

text \<open>
  Inputs at time \<open>now\<close> (every clock reading of the call returns \<open>now\<close>): fixed-wing
  flight requested, in the air, airspeed and body-X velocity \<open>v\<close>, climb-rate control on,
  virtual setpoints stamped \<open>sp_ts\<close>, minimum front transition time 3 s.
\<close>

definition scenario_inputs :: "hrt_abstime \<Rightarrow> hrt_abstime \<Rightarrow> float \<Rightarrow> inputs" where
  "scenario_inputs now sp_ts v =
     \<lparr>hrt_absolute_time = (\<lambda>k. now), is_fixed_wing_requested = True,
      can_transition_on_ground = False, getMinimumFrontTransitionTime = Finite 3,
      update_and_get_backtransition_pitch_sp = Finite 0,
      v_xy_valid = True, vx = v, vy = Finite 0, vz = Finite 0,
      q = (Finite 1, Finite 0, Finite 0, Finite 0),
      calibrated_airspeed_m_s = v, flag_control_climb_rate_enabled = True,
      mc_virtual_att_sp = level_att_sp sp_ts, fw_virtual_att_sp = level_att_sp sp_ts,
      actuators_mc_in = const_controls (Finite (1 / 2)),
      actuators_fw_in = const_controls (Finite (1 / 4)), dt = Finite (1 / 250)\<rparr>"

text \<open>
  The object in flight mode \<open>m\<close>, the transition started at time 0, all four weights
  \<open>w\<close>, pusher throttle \<open>thr\<close>.
\<close>

definition scenario_state :: "vtol_mode \<Rightarrow> float \<Rightarrow> float \<Rightarrow> unit Standard" where
  "scenario_state m w thr =
     \<lparr>flight_mode = m, transition_start = 0,
      mc_roll_weight = w, mc_pitch_weight = w, mc_yaw_weight = w, mc_throttle_weight = w,
      pusher_throttle = thr, reverse_output = Finite 0, vtol_mode = simple_mode m,
      trans_finished_ts = 0, airspeed_trans_blend_margin = Finite 0,
      vtol_transition_failsafe = False, v_att_sp = level_att_sp 0,
      flaps_setpoint_with_slewrate = Finite 0, spoiler_setpoint_with_slewrate = Finite 0,
      quadchute = [],
      actuators_out_0 = const_controls (Finite 0), actuators_out_1 = const_controls (Finite 0),
      torque_setpoint_0 = zero_setpoint, torque_setpoint_1 = zero_setpoint,
      thrust_setpoint_0 = zero_setpoint, thrust_setpoint_1 = zero_setpoint,
      vtol_type = ()\<rparr>"

text \<open>
  Blending from 0 m/s to 10 m/s with the airspeed sensor not used for the completion of
  the transition (\<^verbatim>\<open>FW_ARSP_MODE\<close> 1).
\<close>

definition zero_blend_params :: params where
  "zero_blend_params =
     scenario_params\<lparr>vt_arsp_blend := Finite 0, vt_arsp_trans := Finite 10, fw_arsp_mode := 1\<rparr>"

text \<open>Full pusher throttle in the front transition, reached in 1 s.\<close>

definition full_throttle_params :: params where
  "full_throttle_params =
     scenario_params\<lparr>vt_f_trans_thr := Finite 1, vt_psher_rmp_dt := Finite 1\<rparr>"

text \<open>No pusher ramp (\<^verbatim>\<open>VT_PSHER_RMP_DT\<close> 0), reverse thrust after 4 s.\<close>

definition no_ramp_params :: params where
  "no_ramp_params =
     scenario_params\<lparr>vt_psher_rmp_dt := Finite 0, vt_b_rev_del := Finite 4\<rparr>"

section \<open>Properties\<close>

subsection \<open>Unfolding and arithmetic on single-precision values\<close>

lemmas scenario_defs =
  scenario_params_def scenario_lib_def scenario_inputs_def scenario_state_def
  level_att_sp_def const_controls_def zero_setpoint_def
  zero_blend_params_def full_throttle_params_def no_ramp_params_def

lemmas scheduler_defs =
  update_vtol_state_def set_mc_weights_def transition_to_fw_def
  exit_backtransition_speed_condition_def exit_backtransition_time_condition_def

lemmas transition_defs =
  update_transition_state_def setpoints_stale_def copy_virtual_att_sp_def
  front_transition_pusher_throttle_def front_transition_mc_weight_def thrscale_def
  back_transition_pusher_throttle_def back_transition_mc_weight_def set_q_d_def
  transition_mc_weight_def set_mc_weights_def

lemmas float_defs =
  constrain_def fgt_def fge_def fsub_def time_since_def one_s_def FLT_EPSILON_def
  signed_inf_def

lemma flt_not_fge: "flt a b \<Longrightarrow> \<not> fge a b"
  by (cases a; cases b) (simp_all add: fge_def)

lemma fmul_one: "fmul (Finite 1) a = a"
  by (cases a) (simp_all add: signed_inf_def)

text \<open>A quotient by zero is an infinity or a NaN, whatever the dividend is.\<close>

lemma fdiv_by_zero_not_finite: "\<not> PX4_ISFINITE (fdiv a (Finite 0))"
  by (cases a) (simp_all add: signed_inf_def)

text \<open>A value that is not \<open>\<le> 0\<close> is not zero.\<close>

lemma not_fle_zero_nonzero: "\<not> fle a (Finite 0) \<Longrightarrow> a \<noteq> Finite 0"
  by auto

text \<open>Past the delay plus a positive ramp time, the constrained quotient is 1.\<close>

lemma ramp_complete:
  assumes "fgt r (Finite 0)" and "fge (Finite t) (fadd d r)"
  shows "fge (Finite t) d
       \<and> constrain (fdiv (fsub (Finite t) d) r) (Finite 0) (Finite 1) = Finite 1"
  using assms
  by (cases d; cases r) (auto simp add: fgt_def fge_def fsub_def constrain_def field_simps)

text \<open>With fresh setpoints, the back transition writes its pusher throttle.\<close>

lemma back_transition_writes_pusher:
  assumes "flight_mode s = TRANSITION_TO_MC"
    and "\<not> setpoints_stale i (hrt_absolute_time i 0)"
  shows "pusher_throttle (update_transition_state l p i s) =
           back_transition_pusher_throttle p
             (time_since (hrt_absolute_time i 0) (transition_start s))"
  using assms
  by (simp add: update_transition_state_def set_mc_weights_def Let_def split: prod.split)

text \<open>With fresh setpoints, the front transition writes its pusher throttle.\<close>

lemma front_transition_writes_pusher:
  assumes "flight_mode s = TRANSITION_TO_FW"
    and "\<not> setpoints_stale i (hrt_absolute_time i 0)"
  shows "pusher_throttle (update_transition_state l p i s) =
           front_transition_pusher_throttle p
             (time_since (hrt_absolute_time i 0) (transition_start s)) (pusher_throttle s)"
  using assms
  by (simp add: update_transition_state_def set_mc_weights_def Let_def split: prod.split)

subsection \<open>The mode scheduler\<close>

text \<open>
  C1. On every call with the failsafe flag set, \<open>update_vtol_state\<close> sets the flight mode
  to \<open>MC_MODE\<close> and the pusher throttle and the reverse output to 0, whatever the current
  mode and the other inputs are; and after the call the flag is cleared if and only if
  fixed-wing flight is not requested.
\<close>

theorem failsafe_forces_mc_mode:
  assumes "vtol_transition_failsafe s"
  shows "flight_mode (update_vtol_state l p i s) = MC_MODE
       \<and> pusher_throttle (update_vtol_state l p i s) = Finite 0
       \<and> reverse_output (update_vtol_state l p i s) = Finite 0
       \<and> (\<not> vtol_transition_failsafe (update_vtol_state l p i s)
            \<longleftrightarrow> \<not> is_fixed_wing_requested i)"
  using assms by (simp add: update_vtol_state_def set_mc_weights_def Let_def)

text \<open>
  The failsafe flag raised one second into a front transition, with fixed-wing flight
  still requested: the mode is \<open>MC_MODE\<close> and the flag stays set.
\<close>

theorem failsafe_forces_mc_mode_witness:
  "vtol_transition_failsafe
     ((scenario_state TRANSITION_TO_FW (Finite 1) (Finite (1 / 4)))
        \<lparr>vtol_transition_failsafe := True\<rparr>)
   \<and> flight_mode (update_vtol_state scenario_lib scenario_params
        (scenario_inputs 1000000 1000000 (Finite 5))
        ((scenario_state TRANSITION_TO_FW (Finite 1) (Finite (1 / 4)))
           \<lparr>vtol_transition_failsafe := True\<rparr>)) = MC_MODE
   \<and> vtol_transition_failsafe (update_vtol_state scenario_lib scenario_params
        (scenario_inputs 1000000 1000000 (Finite 5))
        ((scenario_state TRANSITION_TO_FW (Finite 1) (Finite (1 / 4)))
           \<lparr>vtol_transition_failsafe := True\<rparr>))"
  using failsafe_forces_mc_mode
    [of "(scenario_state TRANSITION_TO_FW (Finite 1) (Finite (1 / 4)))
           \<lparr>vtol_transition_failsafe := True\<rparr>"
        scenario_lib scenario_params "scenario_inputs 1000000 1000000 (Finite 5)"]
  by (simp add: scenario_state_def scenario_inputs_def)

text \<open>
  C3. In \<open>TRANSITION_TO_FW\<close> with fixed-wing flight requested and no failsafe,
  \<open>update_vtol_state\<close> switches to \<open>FW_MODE\<close> exactly when the vehicle can transition on
  the ground, or the time since the start of the transition exceeds the minimum front
  transition time and either the airspeed is finite, \<^verbatim>\<open>FW_ARSP_MODE\<close> is 0 and the
  airspeed is at least \<^verbatim>\<open>VT_ARSP_TRANS\<close>, or the airspeed is not finite or
  \<^verbatim>\<open>FW_ARSP_MODE\<close> is not 0. On the switch the time of the clock is recorded in
  \<open>trans_finished_ts\<close>; otherwise the mode stays \<open>TRANSITION_TO_FW\<close>. The pusher throttle
  is not modified.
\<close>

theorem front_transition_completion:
  assumes "flight_mode s = TRANSITION_TO_FW"
    and "is_fixed_wing_requested i"
    and "\<not> vtol_transition_failsafe s"
  shows "(flight_mode (update_vtol_state l p i s) = FW_MODE \<longleftrightarrow>
            can_transition_on_ground i
          \<or> fgt (time_since (hrt_absolute_time i 0) (transition_start s))
                (getMinimumFrontTransitionTime i)
            \<and> (PX4_ISFINITE (calibrated_airspeed_m_s i) \<and> fw_arsp_mode p = 0
                 \<and> fge (calibrated_airspeed_m_s i) (vt_arsp_trans p)
               \<or> (\<not> PX4_ISFINITE (calibrated_airspeed_m_s i) \<or> fw_arsp_mode p \<noteq> 0)))
       \<and> (flight_mode (update_vtol_state l p i s) = FW_MODE \<longrightarrow>
            trans_finished_ts (update_vtol_state l p i s) = hrt_absolute_time i 1)
       \<and> (flight_mode (update_vtol_state l p i s) \<noteq> FW_MODE \<longrightarrow>
            flight_mode (update_vtol_state l p i s) = TRANSITION_TO_FW
            \<and> trans_finished_ts (update_vtol_state l p i s) = trans_finished_ts s)
       \<and> pusher_throttle (update_vtol_state l p i s) = pusher_throttle s"
  using assms
  by (auto simp add: update_vtol_state_def set_mc_weights_def transition_to_fw_def Let_def)

text \<open>
  Four seconds into the transition (minimum time 3 s, \<^verbatim>\<open>VT_ARSP_TRANS\<close> 20 m/s): at
  21 m/s the mode becomes \<open>FW_MODE\<close> and the time is recorded, at 15 m/s the mode stays,
  and with a NaN airspeed the mode becomes \<open>FW_MODE\<close> by time alone.
\<close>

theorem front_transition_completion_witness:
  "flight_mode (scenario_state TRANSITION_TO_FW (Finite 0) (Finite (3 / 4))) = TRANSITION_TO_FW
   \<and> is_fixed_wing_requested (scenario_inputs 4000000 4000000 (Finite 21))
   \<and> \<not> vtol_transition_failsafe (scenario_state TRANSITION_TO_FW (Finite 0) (Finite (3 / 4)))
   \<and> flight_mode (update_vtol_state scenario_lib scenario_params
        (scenario_inputs 4000000 4000000 (Finite 21))
        (scenario_state TRANSITION_TO_FW (Finite 0) (Finite (3 / 4)))) = FW_MODE
   \<and> trans_finished_ts (update_vtol_state scenario_lib scenario_params
        (scenario_inputs 4000000 4000000 (Finite 21))
        (scenario_state TRANSITION_TO_FW (Finite 0) (Finite (3 / 4)))) = 4000000
   \<and> flight_mode (update_vtol_state scenario_lib scenario_params
        (scenario_inputs 4000000 4000000 (Finite 15))
        (scenario_state TRANSITION_TO_FW (Finite 0) (Finite (3 / 4)))) = TRANSITION_TO_FW
   \<and> pusher_throttle (update_vtol_state scenario_lib scenario_params
        (scenario_inputs 4000000 4000000 (Finite 15))
        (scenario_state TRANSITION_TO_FW (Finite 0) (Finite (3 / 4)))) = Finite (3 / 4)
   \<and> \<not> PX4_ISFINITE (calibrated_airspeed_m_s (scenario_inputs 4000000 4000000 NaN))
   \<and> flight_mode (update_vtol_state scenario_lib scenario_params
        (scenario_inputs 4000000 4000000 NaN)
        (scenario_state TRANSITION_TO_FW (Finite 0) (Finite (3 / 4)))) = FW_MODE"
  using
    front_transition_completion
      [of "scenario_state TRANSITION_TO_FW (Finite 0) (Finite (3 / 4))"
          "scenario_inputs 4000000 4000000 NaN" scenario_lib scenario_params]
    front_transition_completion
      [of "scenario_state TRANSITION_TO_FW (Finite 0) (Finite (3 / 4))"
          "scenario_inputs 4000000 4000000 (Finite 21)" scenario_lib scenario_params]
    front_transition_completion
      [of "scenario_state TRANSITION_TO_FW (Finite 0) (Finite (3 / 4))"
          "scenario_inputs 4000000 4000000 (Finite 15)" scenario_lib scenario_params]
  by (simp add: scenario_defs float_defs)

text \<open>
  C4. In \<open>TRANSITION_TO_MC\<close> with fixed-wing flight not requested and no failsafe,
  \<open>update_vtol_state\<close> switches to \<open>MC_MODE\<close> exactly when the vehicle can transition on
  the ground, or the speed condition holds, or the time since the start of the transition
  exceeds \<^verbatim>\<open>VT_B_TRANS_DUR\<close>. The speed condition: with a valid local XY velocity, the
  body-X component of the velocity rotated by the inverse of the attitude quaternion is
  less than \<^verbatim>\<open>MPC_XY_CRUISE\<close>; otherwise the airspeed is finite and less than
  \<^verbatim>\<open>MPC_XY_CRUISE\<close>; with neither source it does not hold.
\<close>

theorem back_transition_exit:
  assumes "flight_mode s = TRANSITION_TO_MC"
    and "\<not> is_fixed_wing_requested i"
    and "\<not> vtol_transition_failsafe s"
  shows "(flight_mode (update_vtol_state l p i s) = MC_MODE \<longleftrightarrow>
            can_transition_on_ground i
          \<or> (if v_xy_valid i
              then flt (R_to_body_x l (q i) (vx i, vy i, vz i)) (mpc_xy_cruise p)
              else PX4_ISFINITE (calibrated_airspeed_m_s i)
                   \<and> flt (calibrated_airspeed_m_s i) (mpc_xy_cruise p))
          \<or> fgt (time_since (hrt_absolute_time i 0) (transition_start s)) (vt_b_trans_dur p))
       \<and> (flight_mode (update_vtol_state l p i s) \<noteq> MC_MODE \<longrightarrow>
            flight_mode (update_vtol_state l p i s) = TRANSITION_TO_MC)"
  using assms
  by (auto simp add: update_vtol_state_def set_mc_weights_def Let_def
        exit_backtransition_speed_condition_def exit_backtransition_time_condition_def)

text \<open>
  Four seconds into the back transition (at most 8 s, cruise speed 5 m/s): at a body-X
  velocity of 4 m/s the mode becomes \<open>MC_MODE\<close>, at 15 m/s it stays \<open>TRANSITION_TO_MC\<close>;
  without a valid velocity an airspeed of 4 m/s makes the mode \<open>MC_MODE\<close>.
\<close>

theorem back_transition_exit_witness:
  "flight_mode (scenario_state TRANSITION_TO_MC (Finite 1) (Finite (2 / 5))) = TRANSITION_TO_MC
   \<and> \<not> is_fixed_wing_requested
         ((scenario_inputs 4000000 4000000 (Finite 4))\<lparr>is_fixed_wing_requested := False\<rparr>)
   \<and> \<not> vtol_transition_failsafe (scenario_state TRANSITION_TO_MC (Finite 1) (Finite (2 / 5)))
   \<and> flight_mode (update_vtol_state scenario_lib scenario_params
        ((scenario_inputs 4000000 4000000 (Finite 4))\<lparr>is_fixed_wing_requested := False\<rparr>)
        (scenario_state TRANSITION_TO_MC (Finite 1) (Finite (2 / 5)))) = MC_MODE
   \<and> flight_mode (update_vtol_state scenario_lib scenario_params
        ((scenario_inputs 4000000 4000000 (Finite 15))\<lparr>is_fixed_wing_requested := False\<rparr>)
        (scenario_state TRANSITION_TO_MC (Finite 1) (Finite (2 / 5)))) = TRANSITION_TO_MC
   \<and> flight_mode (update_vtol_state scenario_lib scenario_params
        ((scenario_inputs 4000000 4000000 (Finite 4))
           \<lparr>is_fixed_wing_requested := False, v_xy_valid := False\<rparr>)
        (scenario_state TRANSITION_TO_MC (Finite 1) (Finite (2 / 5)))) = MC_MODE"
  using
    back_transition_exit
      [of "scenario_state TRANSITION_TO_MC (Finite 1) (Finite (2 / 5))"
          "(scenario_inputs 4000000 4000000 (Finite 4))
             \<lparr>is_fixed_wing_requested := False, v_xy_valid := False\<rparr>"
          scenario_lib scenario_params]
    back_transition_exit
      [of "scenario_state TRANSITION_TO_MC (Finite 1) (Finite (2 / 5))"
          "(scenario_inputs 4000000 4000000 (Finite 4))\<lparr>is_fixed_wing_requested := False\<rparr>"
          scenario_lib scenario_params]
    back_transition_exit
      [of "scenario_state TRANSITION_TO_MC (Finite 1) (Finite (2 / 5))"
          "(scenario_inputs 4000000 4000000 (Finite 15))\<lparr>is_fixed_wing_requested := False\<rparr>"
          scenario_lib scenario_params]
  by (simp add: scenario_defs float_defs)

text \<open>
  C7, as the code has it. When the flight mode after \<open>update_vtol_state\<close> is \<open>FW_MODE\<close>,
  the four weights are 0 if the call started in \<open>FW_MODE\<close>, and are the previous roll
  weight on the call that completes the front transition. Whenever the flight mode is
  \<open>FW_MODE\<close>, \<open>fill_actuator_outputs\<close> emits 0 on roll, pitch, yaw and throttle of the MC
  group, whatever the weights are.
\<close>

theorem fw_mode_weights_and_mc_outputs:
  "(flight_mode (update_vtol_state l p i s) = FW_MODE \<longrightarrow>
      (let w = (if flight_mode s = FW_MODE then Finite 0 else mc_roll_weight s) in
       mc_roll_weight (update_vtol_state l p i s) = w
       \<and> mc_pitch_weight (update_vtol_state l p i s) = w
       \<and> mc_yaw_weight (update_vtol_state l p i s) = w
       \<and> mc_throttle_weight (update_vtol_state l p i s) = w))
   \<and> (flight_mode s2 = FW_MODE \<longrightarrow>
      control (actuators_out_0 (fill_actuator_outputs l p i2 s2)) INDEX_ROLL = Finite 0
      \<and> control (actuators_out_0 (fill_actuator_outputs l p i2 s2)) INDEX_PITCH = Finite 0
      \<and> control (actuators_out_0 (fill_actuator_outputs l p i2 s2)) INDEX_YAW = Finite 0
      \<and> control (actuators_out_0 (fill_actuator_outputs l p i2 s2)) INDEX_THROTTLE = Finite 0)"
  by (cases "flight_mode s")
     (auto simp add: update_vtol_state_def set_mc_weights_def Let_def
        fill_actuator_outputs_def mc_out_control_def split: if_splits)

text \<open>
  In \<open>FW_MODE\<close> with weights 1/2 the weights become 0, and the mixer emits 0 on the MC
  group although the input of the multirotor controller is 1/2 on every channel.
\<close>

theorem fw_mode_weights_and_mc_outputs_witness:
  "flight_mode (update_vtol_state scenario_lib scenario_params
       (scenario_inputs 9000000 9000000 (Finite 21))
       (scenario_state FW_MODE (Finite (1 / 2)) (Finite (3 / 4)))) = FW_MODE
   \<and> mc_roll_weight (update_vtol_state scenario_lib scenario_params
       (scenario_inputs 9000000 9000000 (Finite 21))
       (scenario_state FW_MODE (Finite (1 / 2)) (Finite (3 / 4)))) = Finite 0
   \<and> mc_throttle_weight (update_vtol_state scenario_lib scenario_params
       (scenario_inputs 9000000 9000000 (Finite 21))
       (scenario_state FW_MODE (Finite (1 / 2)) (Finite (3 / 4)))) = Finite 0
   \<and> flight_mode (scenario_state FW_MODE (Finite (1 / 2)) (Finite (3 / 4))) = FW_MODE
   \<and> control (actuators_mc_in (scenario_inputs 9000000 9000000 (Finite 21))) INDEX_THROTTLE
       = Finite (1 / 2)
   \<and> control (actuators_out_0 (fill_actuator_outputs scenario_lib scenario_params
       (scenario_inputs 9000000 9000000 (Finite 21))
       (scenario_state FW_MODE (Finite (1 / 2)) (Finite (3 / 4))))) INDEX_THROTTLE = Finite 0"
  using fw_mode_weights_and_mc_outputs
    [of scenario_lib scenario_params "scenario_inputs 9000000 9000000 (Finite 21)"
        "scenario_state FW_MODE (Finite (1 / 2)) (Finite (3 / 4))"
        "scenario_state FW_MODE (Finite (1 / 2)) (Finite (3 / 4))"
        "scenario_inputs 9000000 9000000 (Finite 21)"]
  by (simp add: scenario_defs scheduler_defs Let_def)

text \<open>
  C7 as stated fails on the call that completes the front transition: one second into the
  transition, with all four weights 1, the vehicle can transition on the ground; the mode
  becomes \<open>FW_MODE\<close> and the weights are still 1.
\<close>

theorem fw_mode_weights_counterexample:
  "flight_mode (update_vtol_state scenario_lib scenario_params
       ((scenario_inputs 1000000 1000000 (Finite 0))\<lparr>can_transition_on_ground := True\<rparr>)
       (scenario_state TRANSITION_TO_FW (Finite 1) (Finite (3 / 8)))) = FW_MODE
   \<and> mc_roll_weight (update_vtol_state scenario_lib scenario_params
       ((scenario_inputs 1000000 1000000 (Finite 0))\<lparr>can_transition_on_ground := True\<rparr>)
       (scenario_state TRANSITION_TO_FW (Finite 1) (Finite (3 / 8)))) \<noteq> Finite 0
   \<and> mc_roll_weight (update_vtol_state scenario_lib scenario_params
       ((scenario_inputs 1000000 1000000 (Finite 0))\<lparr>can_transition_on_ground := True\<rparr>)
       (scenario_state TRANSITION_TO_FW (Finite 1) (Finite (3 / 8)))) = Finite 1"
  by (simp add: scenario_defs scheduler_defs float_defs Let_def)

subsection \<open>The transition controller\<close>

text \<open>
  C5, as the code has it. In \<open>TRANSITION_TO_FW\<close> with fresh virtual setpoints, the weight
  before the final clamp is \<open>1 - |airspeed - VT_ARSP_BLEND| / (VT_ARSP_TRANS -
  VT_ARSP_BLEND)\<close> when the blend margin is positive, the airspeed is finite, greater
  than 0 and at least \<^verbatim>\<open>VT_ARSP_BLEND\<close>, and the minimum front transition time has
  passed; otherwise, if \<^verbatim>\<open>FW_ARSP_MODE\<close> is not 0 or the airspeed is not finite, it is
  \<open>clamp(2 (1 - t / minimum time), 0, 1)\<close>; otherwise it is 1. The pitch setpoint is ramped
  with this weight, and the four weights are its clamp to \<open>[0, 1]\<close>.
\<close>

theorem front_transition_weight_schedule:
  assumes "flight_mode s = TRANSITION_TO_FW"
    and "\<not> setpoints_stale i (hrt_absolute_time i 0)"
  shows "let t = time_since (hrt_absolute_time i 0) (transition_start s);
             cas = calibrated_airspeed_m_s i;
             margin = fsub (vt_arsp_trans p) (vt_arsp_blend p);
             w = (if fgt margin (Finite 0) \<and> PX4_ISFINITE cas \<and> fgt cas (Finite 0)
                     \<and> fge cas (vt_arsp_blend p) \<and> fgt t (getMinimumFrontTransitionTime i)
                  then fsub (Finite 1) (fdiv (fabsf (fsub cas (vt_arsp_blend p))) margin)
                  else if fw_arsp_mode p \<noteq> 0 \<or> \<not> PX4_ISFINITE cas
                  then constrain
                         (fmul (Finite 2)
                            (fsub (Finite 1) (fdiv t (getMinimumFrontTransitionTime i))))
                         (Finite 0) (Finite 1)
                  else Finite 1);
             s' = update_transition_state l p i s
         in transition_mc_weight p i (flight_mode s) t = w
          \<and> pitch_body (v_att_sp s') = fmul (radians l (fw_psp_off p)) (fsub (Finite 1) w)
          \<and> mc_roll_weight s' = constrain w (Finite 0) (Finite 1)
          \<and> mc_pitch_weight s' = constrain w (Finite 0) (Finite 1)
          \<and> mc_yaw_weight s' = constrain w (Finite 0) (Finite 1)
          \<and> mc_throttle_weight s' = constrain w (Finite 0) (Finite 1)"
  using assms
  by (simp add: update_transition_state_def transition_mc_weight_def
        front_transition_mc_weight_def set_mc_weights_def set_q_d_def Let_def
        split: prod.split)

text \<open>
  Blending from 10 m/s to 20 m/s, minimum time 3 s: four seconds into the transition at
  15 m/s the weight is 1/2; two seconds into it the weight is 2/3 with a NaN airspeed and
  1 at 5 m/s.
\<close>

theorem front_transition_weight_schedule_witness:
  "flight_mode (scenario_state TRANSITION_TO_FW (Finite 1) (Finite (3 / 4))) = TRANSITION_TO_FW
   \<and> \<not> setpoints_stale (scenario_inputs 4000000 4000000 (Finite 15)) 4000000
   \<and> transition_mc_weight scenario_params (scenario_inputs 4000000 4000000 (Finite 15))
        TRANSITION_TO_FW (time_since 4000000 0) = Finite (1 / 2)
   \<and> mc_roll_weight (update_transition_state scenario_lib scenario_params
        (scenario_inputs 4000000 4000000 (Finite 15))
        (scenario_state TRANSITION_TO_FW (Finite 1) (Finite (3 / 4)))) = Finite (1 / 2)
   \<and> \<not> setpoints_stale (scenario_inputs 2000000 2000000 NaN) 2000000
   \<and> mc_roll_weight (update_transition_state scenario_lib scenario_params
        (scenario_inputs 2000000 2000000 NaN)
        (scenario_state TRANSITION_TO_FW (Finite 1) (Finite (3 / 4)))) = Finite (2 / 3)
   \<and> \<not> setpoints_stale (scenario_inputs 2000000 2000000 (Finite 5)) 2000000
   \<and> mc_roll_weight (update_transition_state scenario_lib scenario_params
        (scenario_inputs 2000000 2000000 (Finite 5))
        (scenario_state TRANSITION_TO_FW (Finite 1) (Finite (3 / 4)))) = Finite 1"
  using
    front_transition_weight_schedule
      [of "scenario_state TRANSITION_TO_FW (Finite 1) (Finite (3 / 4))"
          "scenario_inputs 2000000 2000000 NaN" scenario_params scenario_lib]
    front_transition_weight_schedule
      [of "scenario_state TRANSITION_TO_FW (Finite 1) (Finite (3 / 4))"
          "scenario_inputs 2000000 2000000 (Finite 5)" scenario_params scenario_lib]
    front_transition_weight_schedule
      [of "scenario_state TRANSITION_TO_FW (Finite 1) (Finite (3 / 4))"
          "scenario_inputs 4000000 4000000 (Finite 15)" scenario_params scenario_lib]
  by (simp add: scenario_defs setpoints_stale_def float_defs Let_def)

text \<open>
  C5 as stated fails when the airspeed is 0: with \<^verbatim>\<open>VT_ARSP_BLEND\<close> 0,
  \<^verbatim>\<open>VT_ARSP_TRANS\<close> 10, \<^verbatim>\<open>FW_ARSP_MODE\<close> 1, a finite airspeed of 0 and 4 s since the
  start (minimum time 3 s), every condition of the claim's first case holds and its
  formula gives 1, while the code, which also requires an airspeed greater than 0, takes
  the time-based case and gives 0.
\<close>

theorem front_transition_weight_counterexample:
  "flight_mode (scenario_state TRANSITION_TO_FW (Finite 1) (Finite (3 / 4))) = TRANSITION_TO_FW
   \<and> \<not> setpoints_stale (scenario_inputs 4000000 4000000 (Finite 0)) 4000000
   \<and> fgt (fsub (vt_arsp_trans zero_blend_params) (vt_arsp_blend zero_blend_params)) (Finite 0)
   \<and> PX4_ISFINITE (calibrated_airspeed_m_s (scenario_inputs 4000000 4000000 (Finite 0)))
   \<and> fge (calibrated_airspeed_m_s (scenario_inputs 4000000 4000000 (Finite 0)))
        (vt_arsp_blend zero_blend_params)
   \<and> fgt (time_since 4000000 0)
        (getMinimumFrontTransitionTime (scenario_inputs 4000000 4000000 (Finite 0)))
   \<and> transition_mc_weight zero_blend_params (scenario_inputs 4000000 4000000 (Finite 0))
        TRANSITION_TO_FW (time_since 4000000 0)
      \<noteq> fsub (Finite 1)
          (fdiv (fabsf (fsub (calibrated_airspeed_m_s (scenario_inputs 4000000 4000000 (Finite 0)))
                         (vt_arsp_blend zero_blend_params)))
             (fsub (vt_arsp_trans zero_blend_params) (vt_arsp_blend zero_blend_params)))
   \<and> transition_mc_weight zero_blend_params (scenario_inputs 4000000 4000000 (Finite 0))
        TRANSITION_TO_FW (time_since 4000000 0) = Finite 0
   \<and> mc_roll_weight (update_transition_state scenario_lib zero_blend_params
        (scenario_inputs 4000000 4000000 (Finite 0))
        (scenario_state TRANSITION_TO_FW (Finite 1) (Finite (3 / 4)))) = Finite 0"
  by (simp add: scenario_defs transition_defs float_defs Let_def)

text \<open>
  C6, as the code has it. On a call with stale virtual setpoints (one of the two older
  than \<open>now - 1 s\<close> under climb-rate control, the fixed-wing one otherwise),
  \<open>update_transition_state\<close> returns before the schedules: the attitude setpoint, the four
  weights and the pusher throttle are all left as they were, as are the flight mode and
  the start of the transition.
\<close>

theorem stale_setpoints_skip_update:
  assumes "if flag_control_climb_rate_enabled i
           then timestamp (mc_virtual_att_sp i) < hrt_absolute_time i 0 - one_s
              \<or> timestamp (fw_virtual_att_sp i) < hrt_absolute_time i 0 - one_s
           else timestamp (fw_virtual_att_sp i) < hrt_absolute_time i 0 - one_s"
  shows "v_att_sp (update_transition_state l p i s) = v_att_sp s
       \<and> mc_roll_weight (update_transition_state l p i s) = mc_roll_weight s
       \<and> mc_pitch_weight (update_transition_state l p i s) = mc_pitch_weight s
       \<and> mc_yaw_weight (update_transition_state l p i s) = mc_yaw_weight s
       \<and> mc_throttle_weight (update_transition_state l p i s) = mc_throttle_weight s
       \<and> pusher_throttle (update_transition_state l p i s) = pusher_throttle s
       \<and> flight_mode (update_transition_state l p i s) = flight_mode s
       \<and> transition_start (update_transition_state l p i s) = transition_start s"
  using assms
  by (simp add: update_transition_state_def setpoints_stale_def Let_def split: prod.split)

text \<open>
  Four seconds into a front transition, with virtual setpoints two seconds old: the
  weights stay 1 and the pusher throttle stays 1/4.
\<close>

theorem stale_setpoints_skip_update_witness:
  "flag_control_climb_rate_enabled (scenario_inputs 4000000 2000000 (Finite 15))
   \<and> timestamp (fw_virtual_att_sp (scenario_inputs 4000000 2000000 (Finite 15)))
       < hrt_absolute_time (scenario_inputs 4000000 2000000 (Finite 15)) 0 - one_s
   \<and> mc_roll_weight (update_transition_state scenario_lib scenario_params
        (scenario_inputs 4000000 2000000 (Finite 15))
        (scenario_state TRANSITION_TO_FW (Finite 1) (Finite (1 / 4)))) = Finite 1
   \<and> pusher_throttle (update_transition_state scenario_lib scenario_params
        (scenario_inputs 4000000 2000000 (Finite 15))
        (scenario_state TRANSITION_TO_FW (Finite 1) (Finite (1 / 4)))) = Finite (1 / 4)
   \<and> v_att_sp (update_transition_state scenario_lib scenario_params
        (scenario_inputs 4000000 2000000 (Finite 15))
        (scenario_state TRANSITION_TO_FW (Finite 1) (Finite (1 / 4)))) = level_att_sp 0"
  using stale_setpoints_skip_update
    [of "scenario_inputs 4000000 2000000 (Finite 15)" scenario_lib scenario_params
        "scenario_state TRANSITION_TO_FW (Finite 1) (Finite (1 / 4))"]
  by (simp add: scenario_inputs_def scenario_state_def level_att_sp_def one_s_def)

text \<open>
  C6 as stated fails: on that call the schedules would give a pusher throttle of 3/2 and
  a weight of 1/2, and the function leaves 1/4 and 1.
\<close>

theorem stale_setpoints_counterexample:
  "flight_mode (scenario_state TRANSITION_TO_FW (Finite 1) (Finite (1 / 4))) = TRANSITION_TO_FW
   \<and> setpoints_stale (scenario_inputs 4000000 2000000 (Finite 15)) 4000000
   \<and> pusher_throttle (update_transition_state scenario_lib scenario_params
        (scenario_inputs 4000000 2000000 (Finite 15))
        (scenario_state TRANSITION_TO_FW (Finite 1) (Finite (1 / 4))))
      \<noteq> front_transition_pusher_throttle scenario_params (time_since 4000000 0)
          (Finite (1 / 4))
   \<and> front_transition_pusher_throttle scenario_params (time_since 4000000 0)
        (Finite (1 / 4)) = Finite (3 / 2)
   \<and> mc_roll_weight (update_transition_state scenario_lib scenario_params
        (scenario_inputs 4000000 2000000 (Finite 15))
        (scenario_state TRANSITION_TO_FW (Finite 1) (Finite (1 / 4))))
      \<noteq> constrain
          (transition_mc_weight scenario_params (scenario_inputs 4000000 2000000 (Finite 15))
             TRANSITION_TO_FW (time_since 4000000 0))
          (Finite 0) (Finite 1)
   \<and> constrain
        (transition_mc_weight scenario_params (scenario_inputs 4000000 2000000 (Finite 15))
           TRANSITION_TO_FW (time_since 4000000 0))
        (Finite 0) (Finite 1) = Finite (1 / 2)"
  by (simp add: scenario_defs transition_defs float_defs Let_def)

text \<open>
  C8 fails on the code. With \<^verbatim>\<open>VT_F_TRANS_THR\<close> 1 and \<^verbatim>\<open>VT_PSHER_RMP_DT\<close> 1 s, the
  call at 1 s of the front transition sets the pusher throttle to 1; this is not above
  the target, so the call at 1.004 s (the next tick at 250 Hz) sets it to 1.004, above 1,
  where it stays; the mixer emits it as throttle of the FW group.
\<close>

theorem front_pusher_ramp_exceeds_one:
  "pusher_throttle (update_transition_state scenario_lib full_throttle_params
       (scenario_inputs 1000000 1000000 (Finite 5))
       (scenario_state TRANSITION_TO_FW (Finite 1) (Finite 0))) = Finite 1
   \<and> pusher_throttle (update_transition_state scenario_lib full_throttle_params
       (scenario_inputs 1004000 1004000 (Finite 5))
       (update_transition_state scenario_lib full_throttle_params
          (scenario_inputs 1000000 1000000 (Finite 5))
          (scenario_state TRANSITION_TO_FW (Finite 1) (Finite 0)))) = Finite (251 / 250)
   \<and> fgt (Finite (251 / 250)) (Finite 1)
   \<and> control (actuators_out_1 (fill_actuator_outputs scenario_lib full_throttle_params
       (scenario_inputs 1004000 1004000 (Finite 5))
       (update_transition_state scenario_lib full_throttle_params
          (scenario_inputs 1004000 1004000 (Finite 5))
          (update_transition_state scenario_lib full_throttle_params
             (scenario_inputs 1000000 1000000 (Finite 5))
             (scenario_state TRANSITION_TO_FW (Finite 1) (Finite 0))))))
       INDEX_THROTTLE = Finite (251 / 250)"
  by (simp add: scenario_defs transition_defs float_defs Let_def
        fill_actuator_outputs_def fw_out_control_def)

text \<open>
  C9. In \<open>TRANSITION_TO_MC\<close> with fresh virtual setpoints and a positive
  \<^verbatim>\<open>VT_PSHER_RMP_DT\<close>, the pusher throttle after \<open>update_transition_state\<close> is 0 while
  the time since the start is less than \<^verbatim>\<open>VT_B_REV_DEL\<close>, is
  \<open>clamp((t - VT_B_REV_DEL) / VT_PSHER_RMP_DT, 0, 1) * VT_B_TRANS_THR\<close> from
  \<^verbatim>\<open>VT_B_REV_DEL\<close> on, and so is \<^verbatim>\<open>VT_B_TRANS_THR\<close> from \<open>VT_B_REV_DEL +
  VT_PSHER_RMP_DT\<close> on.
\<close>

theorem back_transition_pusher_ramp:
  assumes "flight_mode s = TRANSITION_TO_MC"
    and "\<not> setpoints_stale i (hrt_absolute_time i 0)"
    and "fgt (vt_psher_rmp_dt p) (Finite 0)"
  shows "let t = time_since (hrt_absolute_time i 0) (transition_start s);
             thr = pusher_throttle (update_transition_state l p i s)
         in (flt t (vt_b_rev_del p) \<longrightarrow> thr = Finite 0)
          \<and> (fge t (vt_b_rev_del p) \<longrightarrow>
               thr = fmul (constrain (fdiv (fsub t (vt_b_rev_del p)) (vt_psher_rmp_dt p))
                             (Finite 0) (Finite 1))
                       (vt_b_trans_thr p))
          \<and> (fge t (fadd (vt_b_rev_del p) (vt_psher_rmp_dt p)) \<longrightarrow> thr = vt_b_trans_thr p)"
proof -
  let ?t = "time_since (hrt_absolute_time i 0) (transition_start s)"
  have thr: "pusher_throttle (update_transition_state l p i s) =
               back_transition_pusher_throttle p ?t"
    using assms(1,2) by (rule back_transition_writes_pusher)
  have early: "flt ?t (vt_b_rev_del p) \<Longrightarrow> back_transition_pusher_throttle p ?t = Finite 0"
    by (simp add: back_transition_pusher_throttle_def flt_not_fge)
  have ramp: "fge ?t (vt_b_rev_del p) \<Longrightarrow>
      back_transition_pusher_throttle p ?t =
        fmul (constrain (fdiv (fsub ?t (vt_b_rev_del p)) (vt_psher_rmp_dt p))
                (Finite 0) (Finite 1)) (vt_b_trans_thr p)"
    by (simp add: back_transition_pusher_throttle_def thrscale_def)
  have full: "back_transition_pusher_throttle p ?t = vt_b_trans_thr p"
    if "fge ?t (fadd (vt_b_rev_del p) (vt_psher_rmp_dt p))"
    using that
      ramp_complete [OF assms(3),
        of "real (unat (hrt_absolute_time i 0 - transition_start s)) * (1 / 1000000)"
           "vt_b_rev_del p"]
    by (simp add: time_since_def back_transition_pusher_throttle_def thrscale_def fmul_one)
  show ?thesis
    using thr early ramp full by (simp add: Let_def)
qed

text \<open>
  Reverse thrust 0.4 after 0.5 s with a ramp of 2 s, the transition started at 1 s: the
  pusher throttle is 0 at 0.25 s, 0.2 at 1.5 s and 0.4 at 3 s since the start.
\<close>

theorem back_transition_pusher_ramp_witness:
  "flight_mode ((scenario_state TRANSITION_TO_MC (Finite 0) (Finite 0))
                  \<lparr>transition_start := 1000000\<rparr>) = TRANSITION_TO_MC
   \<and> \<not> setpoints_stale (scenario_inputs 1250000 1250000 (Finite 15)) 1250000
   \<and> fgt (vt_psher_rmp_dt scenario_params) (Finite 0)
   \<and> flt (time_since 1250000 1000000) (vt_b_rev_del scenario_params)
   \<and> pusher_throttle (update_transition_state scenario_lib scenario_params
        (scenario_inputs 1250000 1250000 (Finite 15))
        ((scenario_state TRANSITION_TO_MC (Finite 0) (Finite 0))
           \<lparr>transition_start := 1000000\<rparr>)) = Finite 0
   \<and> fge (time_since 2500000 1000000) (vt_b_rev_del scenario_params)
   \<and> pusher_throttle (update_transition_state scenario_lib scenario_params
        (scenario_inputs 2500000 2500000 (Finite 15))
        ((scenario_state TRANSITION_TO_MC (Finite 0) (Finite 0))
           \<lparr>transition_start := 1000000\<rparr>)) = Finite (1 / 5)
   \<and> fge (time_since 4000000 1000000)
        (fadd (vt_b_rev_del scenario_params) (vt_psher_rmp_dt scenario_params))
   \<and> pusher_throttle (update_transition_state scenario_lib scenario_params
        (scenario_inputs 4000000 4000000 (Finite 15))
        ((scenario_state TRANSITION_TO_MC (Finite 0) (Finite 0))
           \<lparr>transition_start := 1000000\<rparr>)) = Finite (2 / 5)"
  using
    back_transition_pusher_ramp
      [of "(scenario_state TRANSITION_TO_MC (Finite 0) (Finite 0))\<lparr>transition_start := 1000000\<rparr>"
          "scenario_inputs 1250000 1250000 (Finite 15)" scenario_params scenario_lib]
    back_transition_pusher_ramp
      [of "(scenario_state TRANSITION_TO_MC (Finite 0) (Finite 0))\<lparr>transition_start := 1000000\<rparr>"
          "scenario_inputs 2500000 2500000 (Finite 15)" scenario_params scenario_lib]
    back_transition_pusher_ramp
      [of "(scenario_state TRANSITION_TO_MC (Finite 0) (Finite 0))\<lparr>transition_start := 1000000\<rparr>"
          "scenario_inputs 4000000 4000000 (Finite 15)" scenario_params scenario_lib]
  by (simp add: scenario_defs setpoints_stale_def float_defs Let_def)

text \<open>
  C10. With fresh virtual setpoints, in \<open>TRANSITION_TO_MC\<close> once the time since the
  start has reached \<^verbatim>\<open>VT_B_REV_DEL\<close>, \<open>update_transition_state\<close> computes the pusher
  throttle from the quotient \<open>(t - VT_B_REV_DEL) / VT_PSHER_RMP_DT\<close> for every value of
  \<^verbatim>\<open>VT_PSHER_RMP_DT\<close>, zero and negative values included: no test precedes the
  division, and with \<^verbatim>\<open>VT_PSHER_RMP_DT\<close> 0 it is a division by zero, whose quotient is
  an infinity or a NaN. In \<open>TRANSITION_TO_FW\<close> the pusher throttle is the target when
  \<^verbatim>\<open>VT_PSHER_RMP_DT <= 0\<close>, and the quotient \<open>VT_F_TRANS_THR * t / VT_PSHER_RMP_DT\<close>
  is taken only when that test has failed, so its divisor is never zero.
\<close>

theorem pusher_ramp_division_by_zero:
  assumes "\<not> setpoints_stale i (hrt_absolute_time i 0)"
  shows "let t = time_since (hrt_absolute_time i 0) (transition_start s);
             thr = pusher_throttle (update_transition_state l p i s)
         in (flight_mode s = TRANSITION_TO_MC \<and> fge t (vt_b_rev_del p) \<longrightarrow>
               thr = fmul (constrain (fdiv (fsub t (vt_b_rev_del p)) (vt_psher_rmp_dt p))
                             (Finite 0) (Finite 1))
                       (vt_b_trans_thr p)
               \<and> (vt_psher_rmp_dt p = Finite 0 \<longrightarrow>
                    \<not> PX4_ISFINITE (fdiv (fsub t (vt_b_rev_del p)) (vt_psher_rmp_dt p))))
          \<and> (flight_mode s = TRANSITION_TO_FW \<longrightarrow>
               thr = (if fle (vt_psher_rmp_dt p) (Finite 0) then vt_f_trans_thr p
                      else if fle (pusher_throttle s) (vt_f_trans_thr p)
                        then fdiv (fmul (vt_f_trans_thr p) t) (vt_psher_rmp_dt p)
                      else pusher_throttle s)
               \<and> (\<not> fle (vt_psher_rmp_dt p) (Finite 0) \<longrightarrow> vt_psher_rmp_dt p \<noteq> Finite 0))"
proof -
  let ?t = "time_since (hrt_absolute_time i 0) (transition_start s)"
  let ?thr = "pusher_throttle (update_transition_state l p i s)"
  have mc_ramp: "?thr = fmul (constrain (fdiv (fsub ?t (vt_b_rev_del p)) (vt_psher_rmp_dt p))
                             (Finite 0) (Finite 1))
                       (vt_b_trans_thr p)"
    if "flight_mode s = TRANSITION_TO_MC" and "fge ?t (vt_b_rev_del p)"
    using back_transition_writes_pusher [OF that(1) assms] that(2)
    by (simp add: back_transition_pusher_throttle_def thrscale_def)
  have by_zero: "\<not> PX4_ISFINITE (fdiv (fsub ?t (vt_b_rev_del p)) (vt_psher_rmp_dt p))"
    if "vt_psher_rmp_dt p = Finite 0"
    using that by (simp add: fdiv_by_zero_not_finite)
  have fw_ramp: "?thr = (if fle (vt_psher_rmp_dt p) (Finite 0) then vt_f_trans_thr p
                       else if fle (pusher_throttle s) (vt_f_trans_thr p)
                         then fdiv (fmul (vt_f_trans_thr p) ?t) (vt_psher_rmp_dt p)
                       else pusher_throttle s)"
    if "flight_mode s = TRANSITION_TO_FW"
    using front_transition_writes_pusher [OF that assms]
    by (simp add: front_transition_pusher_throttle_def)
  have fw_guard: "vt_psher_rmp_dt p \<noteq> Finite 0" if "\<not> fle (vt_psher_rmp_dt p) (Finite 0)"
    using that by (rule not_fle_zero_nonzero)
  show ?thesis
    unfolding Let_def using mc_ramp by_zero fw_ramp fw_guard by blast
qed

text \<open>
  With \<^verbatim>\<open>VT_PSHER_RMP_DT\<close> 0 and \<^verbatim>\<open>VT_B_REV_DEL\<close> 4 s, at exactly 4 s since the start
  the quotient of the back transition is 0 / 0 and the pusher throttle is a NaN, while the
  front transition sets the pusher throttle to its target 0.75 without dividing. With
  \<^verbatim>\<open>VT_PSHER_RMP_DT\<close> 2 s the front transition divides by 2: the pusher throttle is
  0.75 * 1 / 2 at 1 s.
\<close>

theorem pusher_ramp_division_by_zero_witness:
  "\<not> setpoints_stale (scenario_inputs 4000000 4000000 (Finite 15)) 4000000
   \<and> flight_mode (scenario_state TRANSITION_TO_MC (Finite 0) (Finite 0)) = TRANSITION_TO_MC
   \<and> fge (time_since 4000000 0) (vt_b_rev_del no_ramp_params)
   \<and> vt_psher_rmp_dt no_ramp_params = Finite 0
   \<and> fdiv (fsub (time_since 4000000 0) (vt_b_rev_del no_ramp_params))
        (vt_psher_rmp_dt no_ramp_params) = NaN
   \<and> pusher_throttle (update_transition_state scenario_lib no_ramp_params
        (scenario_inputs 4000000 4000000 (Finite 15))
        (scenario_state TRANSITION_TO_MC (Finite 0) (Finite 0))) = NaN
   \<and> flight_mode (scenario_state TRANSITION_TO_FW (Finite 1) (Finite 0)) = TRANSITION_TO_FW
   \<and> fle (vt_psher_rmp_dt no_ramp_params) (Finite 0)
   \<and> pusher_throttle (update_transition_state scenario_lib no_ramp_params
        (scenario_inputs 4000000 4000000 (Finite 15))
        (scenario_state TRANSITION_TO_FW (Finite 1) (Finite 0))) = Finite (3 / 4)
   \<and> \<not> setpoints_stale (scenario_inputs 1000000 1000000 (Finite 5)) 1000000
   \<and> \<not> fle (vt_psher_rmp_dt scenario_params) (Finite 0)
   \<and> vt_psher_rmp_dt scenario_params \<noteq> Finite 0
   \<and> pusher_throttle (update_transition_state scenario_lib scenario_params
        (scenario_inputs 1000000 1000000 (Finite 5))
        (scenario_state TRANSITION_TO_FW (Finite 1) (Finite 0))) = Finite (3 / 8)"
  using
    pusher_ramp_division_by_zero
      [of "scenario_inputs 4000000 4000000 (Finite 15)"
          "scenario_state TRANSITION_TO_MC (Finite 0) (Finite 0)" scenario_lib no_ramp_params]
    pusher_ramp_division_by_zero
      [of "scenario_inputs 4000000 4000000 (Finite 15)"
          "scenario_state TRANSITION_TO_FW (Finite 1) (Finite 0)" scenario_lib no_ramp_params]
    pusher_ramp_division_by_zero
      [of "scenario_inputs 1000000 1000000 (Finite 5)"
          "scenario_state TRANSITION_TO_FW (Finite 1) (Finite 0)" scenario_lib scenario_params]
  by (simp add: scenario_defs setpoints_stale_def float_defs Let_def)

subsection \<open>The actuator mixer\<close>

text \<open>
  C2. On the channels of the table, the output of \<open>fill_actuator_outputs\<close> is the
  mode-indexed table of the specification, a function of the flight mode, the two input
  vectors, the four weights, the pusher throttle, the reverse output, the two slew-rate
  states and the elevon lock only: it depends neither on the previous contents of the
  output messages nor on any other input. (The landing-gear levels are the two constants
  of \<^verbatim>\<open>landing_gear_s\<close>.)
\<close>

theorem fill_actuator_outputs_is_mixer_table:
  "emitted_row (fill_actuator_outputs l p i s) =
     mixer_table (flight_mode s) (control (actuators_mc_in i)) (control (actuators_fw_in i))
       (mc_roll_weight s) (mc_pitch_weight s) (mc_yaw_weight s) (mc_throttle_weight s)
       (pusher_throttle s) (reverse_output s)
       (flaps_setpoint_with_slewrate s) (spoiler_setpoint_with_slewrate s)
       (vt_elev_mc_lock p \<noteq> 0) (GEAR_UP l) (GEAR_DOWN l)"
  by (cases "flight_mode s")
     (simp_all add: emitted_row_def fill_actuator_outputs_def mc_out_control_def
        fw_out_control_def mixer_table_def Let_def)

end
